theory Spec2Isabelle
  imports Main "HOL-Library.AList"
begin

section \<open>Go values used by the controller\<close>

subsection \<open>Errors\<close>

text \<open>
  Go's \<open>error\<close> values: a plain message (\<open>errors.New\<close>, or an error of a library whose
  text the environment decides), a wrapped error (\<open>fmt.Errorf("...: %w", err)\<close>), and the
  two kinds of failure of the API client that the controller tells apart.
\<close>

datatype error =
    ErrorString string
  | Errorf string error
  | StatusNotFound string
  | StatusError string

fun Error :: "error \<Rightarrow> string" where
  "Error (ErrorString m) = m"
| "Error (Errorf p e) = p @ '': '' @ Error e"
| "Error (StatusNotFound m) = m"
| "Error (StatusError m) = m"

fun IsNotFound :: "error \<Rightarrow> bool" where
  "IsNotFound (StatusNotFound m) = True"
| "IsNotFound (Errorf p e) = IsNotFound e"
| "IsNotFound (ErrorString m) = False"
| "IsNotFound (StatusError m) = False"

subsection \<open>Instants and durations (package time)\<close>

text \<open>
  An instant is a number of nanoseconds since a fixed epoch; Go's \<open>time.Time\<close> covers
  far more than the years a certificate can name, so instants are unbounded integers.
  A \<open>time.Duration\<close> is an \<open>int64\<close> count of nanoseconds: arithmetic on durations wraps,
  and \<open>Time.Sub\<close> saturates at the smallest and largest duration.
\<close>

type_synonym time = int
type_synonym duration = int

definition Nanosecond :: duration where "Nanosecond = 1"
definition Microsecond :: duration where "Microsecond = 1000 * Nanosecond"
definition Millisecond :: duration where "Millisecond = 1000 * Microsecond"
definition Second :: duration where "Second = 1000 * Millisecond"
definition Minute :: duration where "Minute = 60 * Second"
definition Hour :: duration where "Hour = 60 * Minute"

definition minDuration :: duration where "minDuration = - (2 ^ 63)"
definition maxDuration :: duration where "maxDuration = 2 ^ 63 - 1"

definition int64 :: "int \<Rightarrow> int" where
  \<comment> \<open>the value an \<open>int64\<close> holds after an operation whose exact result is \<open>x\<close>\<close>
  "int64 x = (x + 2 ^ 63) mod 2 ^ 64 - 2 ^ 63"

definition duration_neg :: "duration \<Rightarrow> duration" where
  "duration_neg d = int64 (- d)"

definition duration_sub :: "duration \<Rightarrow> duration \<Rightarrow> duration" where
  "duration_sub a b = int64 (a - b)"

definition duration_quot :: "duration \<Rightarrow> duration \<Rightarrow> duration" where
  \<comment> \<open>Go's \<open>/\<close> on integers truncates towards zero\<close>
  "duration_quot a b = sgn a * sgn b * (\<bar>a\<bar> div \<bar>b\<bar>)"

definition time_Add :: "time \<Rightarrow> duration \<Rightarrow> time" where
  "time_Add t d = t + d"

definition time_Sub :: "time \<Rightarrow> time \<Rightarrow> duration" where
  "time_Sub t u =
     (if t - u > maxDuration then maxDuration
      else if t - u < minDuration then minDuration
      else t - u)"

definition time_After :: "time \<Rightarrow> time \<Rightarrow> bool" where
  "time_After t u = (u < t)"

subsection \<open>time.ParseDuration\<close>

text \<open>
  The parser of the Go standard library, on bytes:
  \<open>[-+]?([0-9]*(\.[0-9]*)?[a-z]+)+\<close>, accumulating in a \<open>uint64\<close>. The library
  computes the contribution of a fractional part in \<open>float64\<close>; here it is the exact
  quotient, which is what the library's result is for the fractions a float holds exactly.
\<close>

definition isDigit :: "char \<Rightarrow> bool" where
  "isDigit c = (48 \<le> (of_char c :: nat) \<and> (of_char c :: nat) \<le> 57)"

fun leadingInt_loop :: "nat \<Rightarrow> string \<Rightarrow> (nat \<times> string) option" where
  "leadingInt_loop x [] = Some (x, [])"
| "leadingInt_loop x (c # s) =
     (if \<not> isDigit c then Some (x, c # s)
      else if x > 2 ^ 63 div 10 then None
      else (let x' = x * 10 + of_char c - 48 in
            if x' > 2 ^ 63 then None else leadingInt_loop x' s))"

definition leadingInt :: "string \<Rightarrow> (nat \<times> string) option" where
  "leadingInt s = leadingInt_loop 0 s"

fun leadingFraction_loop :: "nat \<Rightarrow> nat \<Rightarrow> bool \<Rightarrow> string \<Rightarrow> nat \<times> nat \<times> string" where
  "leadingFraction_loop x scale overflow [] = (x, scale, [])"
| "leadingFraction_loop x scale overflow (c # s) =
     (if \<not> isDigit c then (x, scale, c # s)
      else if overflow then leadingFraction_loop x scale overflow s
      else if x > (2 ^ 63 - 1) div 10 then leadingFraction_loop x scale True s
      else (let y = x * 10 + of_char c - 48 in
            if y > 2 ^ 63 then leadingFraction_loop x scale True s
            else leadingFraction_loop y (scale * 10) False s))"

definition leadingFraction :: "string \<Rightarrow> nat \<times> nat \<times> string" where
  "leadingFraction s = leadingFraction_loop 0 1 False s"

definition unitMap :: "string \<Rightarrow> nat option" where
  "unitMap u = map_of
     [(''ns'', 1),
      (''us'', 1000),
      ([CHR 0xC2, CHR 0xB5, CHR ''s''], 1000),
      ([CHR 0xCE, CHR 0xBC, CHR ''s''], 1000),
      (''ms'', 1000000),
      (''s'', 1000000000),
      (''m'', 60000000000),
      (''h'', 3600000000000)] u"

definition quote :: "string \<Rightarrow> string" where
  \<comment> \<open>the library also escapes quotes, backslashes and non-printable bytes\<close>
  "quote s = [CHR 0x22] @ s @ [CHR 0x22]"

definition invalid_duration :: "string \<Rightarrow> error" where
  "invalid_duration orig = ErrorString (''time: invalid duration '' @ quote orig)"

definition unitChar :: "char \<Rightarrow> bool" where
  "unitChar c = (\<not> (c = CHR ''.'' \<or> isDigit c))"

text \<open>One round of the parser's loop: a number, a unit, and the rest of the input.\<close>

definition parse_component :: "string \<Rightarrow> string \<Rightarrow> error + (nat \<times> string)" where
  "parse_component orig s =
     (case s of
        [] \<Rightarrow> Inl (invalid_duration orig)
      | c # cs \<Rightarrow>
          if \<not> (c = CHR ''.'' \<or> isDigit c) then Inl (invalid_duration orig)
          else
            (case leadingInt s of
               None \<Rightarrow> Inl (invalid_duration orig)
             | Some (v, s1) \<Rightarrow>
                 let pre = (length s \<noteq> length s1);
                     dot = (s1 \<noteq> [] \<and> hd s1 = CHR ''.'');
                     fr = (if dot then leadingFraction (tl s1) else (0, 1, s1));
                     f = fst fr;
                     scale = fst (snd fr);
                     s2 = snd (snd fr);
                     post = (dot \<and> length (tl s1) \<noteq> length s2);
                     u = takeWhile unitChar s2;
                     s3 = dropWhile unitChar s2
                 in
                   if \<not> pre \<and> \<not> post then Inl (invalid_duration orig)
                   else if u = [] then
                     Inl (ErrorString (''time: missing unit in duration '' @ quote orig))
                   else
                     (case unitMap u of
                        None \<Rightarrow>
                          Inl (ErrorString (''time: unknown unit '' @ quote u
                                 @ '' in duration '' @ quote orig))
                      | Some unit \<Rightarrow>
                          if v > 2 ^ 63 div unit then Inl (invalid_duration orig)
                          else
                            (let v1 = v * unit;
                                 v2 = (if f > 0 then v1 + (f * unit) div scale else v1)
                             in if f > 0 \<and> v2 > 2 ^ 63 then Inl (invalid_duration orig)
                                else Inr (v2, s3)))))"

lemma leadingInt_loop_length:
  "leadingInt_loop x s = Some (v, r) \<Longrightarrow> length r \<le> length s"
  by (induction x s rule: leadingInt_loop.induct)
     (auto simp: Let_def split: if_splits)

lemma leadingFraction_loop_length:
  "leadingFraction_loop x sc ov s = (f, sc', r) \<Longrightarrow> length r \<le> length s"
  by (induction x sc ov s rule: leadingFraction_loop.induct)
     (auto simp: Let_def split: if_splits)

lemma dropWhile_unit_shorter:
  "takeWhile P s \<noteq> [] \<Longrightarrow> length (dropWhile P s) < length s"
  by (cases s) (auto simp: le_imp_less_Suc length_dropWhile_le split: if_splits)

lemma parse_component_shorter:
  assumes "parse_component orig s = Inr (v, r)"
  shows "length r < length s"
proof -
  from assms obtain c cs where s: "s = c # cs"
    by (cases s) (auto simp: parse_component_def)
  from assms s obtain v0 s1 where li: "leadingInt s = Some (v0, s1)"
    by (auto simp: parse_component_def split: if_splits option.splits)
  define dot where "dot = (s1 \<noteq> [] \<and> hd s1 = CHR ''.'')"
  define fr where "fr = (if dot then leadingFraction (tl s1) else (0, 1, s1))"
  define s2 where "s2 = snd (snd fr)"
  have l1: "length s1 \<le> length s"
    using li leadingInt_loop_length by (simp add: leadingInt_def)
  have l2: "length s2 \<le> length s1"
  proof (cases dot)
    case True
    obtain f sc r where lf: "leadingFraction_loop 0 1 False (tl s1) = (f, sc, r)"
      by (cases "leadingFraction_loop 0 1 False (tl s1)") auto
    then have "length r \<le> length (tl s1)"
      by (rule leadingFraction_loop_length)
    with True lf show ?thesis
      by (simp add: s2_def fr_def leadingFraction_def)
  next
    case False
    then show ?thesis by (simp add: s2_def fr_def)
  qed
  from assms s li have "takeWhile unitChar s2 \<noteq> [] \<and> r = dropWhile unitChar s2"
    unfolding parse_component_def s2_def fr_def dot_def
    by (auto simp: Let_def split: if_splits option.splits)
  then have "length r < length s2"
    using dropWhile_unit_shorter by blast
  with l1 l2 show ?thesis by simp
qed

function parse_components :: "string \<Rightarrow> nat \<Rightarrow> string \<Rightarrow> error + nat" where
  "parse_components orig d [] = Inr d"
| "parse_components orig d (c # cs) =
     (case parse_component orig (c # cs) of
        Inl e \<Rightarrow> Inl e
      | Inr (v, r) \<Rightarrow>
          (let d' = (d + v) mod 2 ^ 64 in
           if d' > 2 ^ 63 then Inl (invalid_duration orig)
           else parse_components orig d' r))"
  by pat_completeness auto
termination
  by (relation "measure (\<lambda>(orig, d, s). length s)")
     (auto dest: parse_component_shorter)

definition ParseDuration :: "string \<Rightarrow> error + duration" where
  "ParseDuration orig =
     (let signed = (orig \<noteq> [] \<and> (hd orig = CHR ''-'' \<or> hd orig = CHR ''+''));
          neg = (orig \<noteq> [] \<and> hd orig = CHR ''-'');
          s = (if signed then tl orig else orig)
      in if s = ''0'' then Inr 0
         else if s = [] then Inl (invalid_duration orig)
         else
           (case parse_components orig 0 s of
              Inl e \<Rightarrow> Inl e
            | Inr d \<Rightarrow>
                if neg then Inr (- int d)
                else if d > 2 ^ 63 - 1 then Inl (invalid_duration orig)
                else Inr (int d)))"

section \<open>The resources\<close>

subsection \<open>Object metadata and the Certificate resource\<close>

record OwnerReference =
  owner_APIVersion :: string
  owner_Kind :: string
  owner_Name :: string
  owner_UID :: string
  Controller :: bool
  BlockOwnerDeletion :: bool

text \<open>
  \<open>metav1.ObjectMeta\<close> is embedded in every resource; the resources below extend it,
  as the Go structs do. A Go map that may be \<open>nil\<close> is an optional association list.
\<close>

record ObjectMeta =
  Name :: string
  Namespace :: string
  UID :: string
  Labels :: "(string \<times> string) list option"
  Annotations :: "(string \<times> string) list option"
  Finalizers :: "string list"
  DeletionTimestamp :: "time option"
  OwnerReferences :: "OwnerReference list"

record IssuerRef =
  IssuerRef_Name :: string
  IssuerRef_Kind :: string

record CertificateSpec =
  CommonName :: string
  DNSNames :: "string list"
  IPAddresses :: "string list"
  SecretName :: string
  Duration :: string
  RenewBefore :: string
  IssuerRef :: IssuerRef
  RestartDeployments :: bool

datatype ConditionStatus = ConditionTrue | ConditionFalse | ConditionUnknown

record Condition =
  Condition_Type :: string
  Condition_Status :: ConditionStatus
  Reason :: string
  Message :: string
  LastTransitionTime :: time

record CertificateStatus =
  Conditions :: "Condition list"
  NotBefore :: "time option"
  NotAfter :: "time option"
  RenewalTime :: "time option"
  SerialNumber :: string
  LastRenewalTime :: "time option"

record Certificate = ObjectMeta +
  Spec :: CertificateSpec
  Status :: CertificateStatus

subsection \<open>Secrets and deployments\<close>

record Secret = ObjectMeta +
  Secret_Type :: string
  Data :: "(string \<times> string) list"

text \<open>
  Of a deployment, the pod template: its metadata, the volumes (with the name of the
  secret a volume is backed by, when it is a secret volume) and the containers.
\<close>

record Volume =
  Volume_Name :: string
  Volume_Secret :: "string option"

record EnvFromSource =
  Prefix :: string
  SecretRef :: "string option"

record SecretKeySelector =
  SecretKeyRef_Name :: string
  SecretKeyRef_Key :: string

record EnvVarSource =
  SecretKeyRef :: "SecretKeySelector option"

record EnvVar =
  EnvVar_Name :: string
  EnvVar_Value :: string
  ValueFrom :: "EnvVarSource option"

record Container =
  Container_Name :: string
  EnvFrom :: "EnvFromSource list"
  Env :: "EnvVar list"

record PodTemplateSpec = ObjectMeta +
  Volumes :: "Volume list"
  Containers :: "Container list"

record Deployment = ObjectMeta +
  Template :: PodTemplateSpec

subsection \<open>The certificate template handed to crypto/x509\<close>

record x509_Certificate =
  x509_SerialNumber :: nat
  x509_CommonName :: string
  x509_Organization :: "string list"
  x509_DNSNames :: "string list"
  x509_IPAddresses :: "string list"
  x509_NotBefore :: time
  x509_NotAfter :: time
  x509_KeyUsage :: nat
  x509_ExtKeyUsage :: "nat list"
  x509_BasicConstraintsValid :: bool

definition KeyUsageDigitalSignature :: nat where "KeyUsageDigitalSignature = 1"
definition KeyUsageKeyEncipherment :: nat where "KeyUsageKeyEncipherment = 4"
definition ExtKeyUsageServerAuth :: nat where "ExtKeyUsageServerAuth = 1"
definition ExtKeyUsageClientAuth :: nat where "ExtKeyUsageClientAuth = 2"

section \<open>The world the controller runs in\<close>

text \<open>
  The controller reads the clock, draws entropy and talks to the API server through its
  client. The world holds what these give: the successive readings of the clock, the
  outcome of each cryptographic primitive, for each call of the client whether the server
  fails it (and with which message), the objects the server stores, and the calls made
  so far. One invocation runs alone on its objects (the scheduler delivers one
  reconciliation of an identity at a time), and the server stores an object as it
  is written.
\<close>

type_synonym NamespacedName = "string \<times> string"

datatype api_op =
    GetCertificate NamespacedName
  | UpdateCertificate Certificate
  | UpdateCertificateStatus Certificate
  | GetSecret NamespacedName
  | CreateSecret Secret
  | UpdateSecret Secret
  | ListDeployments string
  | UpdateDeployment Deployment

record world =
  clock :: "nat \<Rightarrow> time"
  ticks :: nat
  api_fail :: "nat \<Rightarrow> string option"
  trace :: "api_op list"
  certs :: "NamespacedName \<rightharpoonup> Certificate"
  secrets :: "NamespacedName \<rightharpoonup> Secret"
  deployments :: "Deployment list"
  rsa_GenerateKey :: "string + string"
  rand_Int :: "string + nat"
  x509_CreateCertificate :: "x509_Certificate \<Rightarrow> string \<Rightarrow> string + string"
  pem_EncodeToMemory :: "string \<Rightarrow> string \<Rightarrow> string"
  net_ParseIP :: "string \<Rightarrow> string option"
  Format_RFC3339 :: "time \<Rightarrow> string"
  scheme_has_Certificate :: bool

definition time_Now :: "world \<Rightarrow> time \<times> world" where
  "time_Now w = (clock w (ticks w), w\<lparr>ticks := Suc (ticks w)\<rparr>)"

definition key_of :: "'a ObjectMeta_scheme \<Rightarrow> NamespacedName" where
  "key_of obj = (Namespace obj, Name obj)"

text \<open>
  A call of the client is recorded in the trace; its position there decides whether
  the server fails it.
\<close>

definition api_call :: "api_op \<Rightarrow> world \<Rightarrow> string option \<times> world" where
  "api_call op w = (api_fail w (length (trace w)), w\<lparr>trace := trace w @ [op]\<rparr>)"

definition client_Get_Certificate ::
  "world \<Rightarrow> NamespacedName \<Rightarrow> (error + Certificate) \<times> world" where
  "client_Get_Certificate w key =
     (case api_call (GetCertificate key) w of
        (Some m, w') \<Rightarrow> (Inl (StatusError m), w')
      | (None, w') \<Rightarrow>
          (case certs w' key of
             None \<Rightarrow> (Inl (StatusNotFound (''certificates '' @ quote (snd key) @ '' not found'')), w')
           | Some c \<Rightarrow> (Inr c, w')))"

text \<open>
  The Certificate kind has the status subresource: an update of the resource leaves the
  stored status as it is, and an update of the status leaves everything else.
\<close>

definition client_Update_Certificate :: "world \<Rightarrow> Certificate \<Rightarrow> error option \<times> world" where
  "client_Update_Certificate w c =
     (case api_call (UpdateCertificate c) w of
        (Some m, w') \<Rightarrow> (Some (StatusError m), w')
      | (None, w') \<Rightarrow>
          (case certs w' (key_of c) of
             None \<Rightarrow> (Some (StatusNotFound (''certificates '' @ quote (Name c) @ '' not found'')), w')
           | Some old \<Rightarrow>
               (None, w'\<lparr>certs := (certs w')(key_of c \<mapsto> c\<lparr>Status := Status old\<rparr>)\<rparr>)))"

definition client_Status_Update :: "world \<Rightarrow> Certificate \<Rightarrow> error option \<times> world" where
  "client_Status_Update w c =
     (case api_call (UpdateCertificateStatus c) w of
        (Some m, w') \<Rightarrow> (Some (StatusError m), w')
      | (None, w') \<Rightarrow>
          (case certs w' (key_of c) of
             None \<Rightarrow> (Some (StatusNotFound (''certificates '' @ quote (Name c) @ '' not found'')), w')
           | Some old \<Rightarrow>
               (None, w'\<lparr>certs := (certs w')(key_of c \<mapsto> old\<lparr>Status := Status c\<rparr>)\<rparr>)))"

definition client_Get_Secret ::
  "world \<Rightarrow> NamespacedName \<Rightarrow> (error + Secret) \<times> world" where
  "client_Get_Secret w key =
     (case api_call (GetSecret key) w of
        (Some m, w') \<Rightarrow> (Inl (StatusError m), w')
      | (None, w') \<Rightarrow>
          (case secrets w' key of
             None \<Rightarrow> (Inl (StatusNotFound (''secrets '' @ quote (snd key) @ '' not found'')), w')
           | Some s \<Rightarrow> (Inr s, w')))"

definition client_Create_Secret :: "world \<Rightarrow> Secret \<Rightarrow> error option \<times> world" where
  "client_Create_Secret w s =
     (case api_call (CreateSecret s) w of
        (Some m, w') \<Rightarrow> (Some (StatusError m), w')
      | (None, w') \<Rightarrow>
          (case secrets w' (key_of s) of
             Some old \<Rightarrow> (Some (StatusError (''secrets '' @ quote (Name s) @ '' already exists'')), w')
           | None \<Rightarrow> (None, w'\<lparr>secrets := (secrets w')(key_of s \<mapsto> s)\<rparr>)))"

definition client_Update_Secret :: "world \<Rightarrow> Secret \<Rightarrow> error option \<times> world" where
  "client_Update_Secret w s =
     (case api_call (UpdateSecret s) w of
        (Some m, w') \<Rightarrow> (Some (StatusError m), w')
      | (None, w') \<Rightarrow>
          (case secrets w' (key_of s) of
             None \<Rightarrow> (Some (StatusNotFound (''secrets '' @ quote (Name s) @ '' not found'')), w')
           | Some old \<Rightarrow> (None, w'\<lparr>secrets := (secrets w')(key_of s \<mapsto> s)\<rparr>)))"

definition client_List_Deployments :: "world \<Rightarrow> string \<Rightarrow> (error + Deployment list) \<times> world" where
  "client_List_Deployments w ns =
     (case api_call (ListDeployments ns) w of
        (Some m, w') \<Rightarrow> (Inl (StatusError m), w')
      | (None, w') \<Rightarrow> (Inr (filter (\<lambda>d. Namespace d = ns) (deployments w')), w'))"

definition client_Update_Deployment :: "world \<Rightarrow> Deployment \<Rightarrow> error option \<times> world" where
  "client_Update_Deployment w d =
     (case api_call (UpdateDeployment d) w of
        (Some m, w') \<Rightarrow> (Some (StatusError m), w')
      | (None, w') \<Rightarrow>
          if key_of d \<in> key_of ` set (deployments w') then
            (None, w'\<lparr>deployments :=
                         map (\<lambda>x. if key_of x = key_of d then d else x) (deployments w')\<rparr>)
          else (Some (StatusNotFound (''deployments '' @ quote (Name d) @ '' not found'')), w'))"

section \<open>Library functions of controller-runtime and apimachinery\<close>

definition ContainsFinalizer :: "'a ObjectMeta_scheme \<Rightarrow> string \<Rightarrow> bool" where
  "ContainsFinalizer obj finalizer = (finalizer \<in> set (Finalizers obj))"

definition AddFinalizer :: "'a ObjectMeta_scheme \<Rightarrow> string \<Rightarrow> 'a ObjectMeta_scheme \<times> bool" where
  "AddFinalizer obj finalizer =
     (if finalizer \<in> set (Finalizers obj) then (obj, False)
      else (obj\<lparr>Finalizers := Finalizers obj @ [finalizer]\<rparr>, True))"

definition RemoveFinalizer :: "'a ObjectMeta_scheme \<Rightarrow> string \<Rightarrow> 'a ObjectMeta_scheme \<times> bool" where
  "RemoveFinalizer obj finalizer =
     (let kept = filter (\<lambda>f. f \<noteq> finalizer) (Finalizers obj)
      in (obj\<lparr>Finalizers := kept\<rparr>, length (Finalizers obj) \<noteq> length kept))"

text \<open>
  \<open>meta.SetStatusCondition\<close>, for a new condition that carries its transition time (the
  controller always passes \<open>metav1.Now()\<close>): the first condition of that type is updated
  in place, its transition time only when the status changes; otherwise the new
  condition is appended.
\<close>

fun SetStatusCondition :: "Condition list \<Rightarrow> Condition \<Rightarrow> Condition list" where
  "SetStatusCondition [] new = [new]"
| "SetStatusCondition (c # cs) new =
     (if Condition_Type c = Condition_Type new then
        c\<lparr>Condition_Status := Condition_Status new,
          LastTransitionTime :=
            (if Condition_Status c \<noteq> Condition_Status new then LastTransitionTime new
             else LastTransitionTime c),
          Reason := Reason new,
          Message := Message new\<rparr> # cs
      else c # SetStatusCondition cs new)"

definition controller_ref :: "Certificate \<Rightarrow> OwnerReference" where
  "controller_ref owner =
     \<lparr>owner_APIVersion = ''cert.example.com/v1alpha1'', owner_Kind = ''Certificate'',
      owner_Name = Name owner, owner_UID = UID owner,
      Controller = True, BlockOwnerDeletion = True\<rparr>"

definition referSameObject :: "OwnerReference \<Rightarrow> OwnerReference \<Rightarrow> bool" where
  "referSameObject a b =
     (owner_APIVersion a = owner_APIVersion b \<and> owner_Kind a = owner_Kind b
      \<and> owner_Name a = owner_Name b)"

fun upsertOwnerRef :: "OwnerReference \<Rightarrow> OwnerReference list \<Rightarrow> OwnerReference list" where
  "upsertOwnerRef ref [] = [ref]"
| "upsertOwnerRef ref (r # rs) =
     (if referSameObject r ref then ref # rs else r # upsertOwnerRef ref rs)"

text \<open>
  \<open>ctrl.SetControllerReference\<close>: it fails when the scheme does not know the owner's
  kind, when owner and object are in different namespaces, and when the object already
  has another controller.
\<close>

definition SetControllerReference :: "world \<Rightarrow> Certificate \<Rightarrow> Secret \<Rightarrow> error + Secret" where
  "SetControllerReference w owner obj =
     (if \<not> scheme_has_Certificate w then
        Inl (ErrorString ''no kind is registered for the type v1alpha1.Certificate'')
      else if Namespace owner \<noteq> Namespace obj then
        Inl (ErrorString ''cross-namespace owner references are disallowed'')
      else
        (case find Controller (OwnerReferences obj) of
           Some existing \<Rightarrow>
             if referSameObject existing (controller_ref owner) then
               Inr (obj\<lparr>OwnerReferences :=
                          upsertOwnerRef (controller_ref owner) (OwnerReferences obj)\<rparr>)
             else Inl (ErrorString ''Object is already owned by another controller'')
         | None \<Rightarrow>
             Inr (obj\<lparr>OwnerReferences :=
                        upsertOwnerRef (controller_ref owner) (OwnerReferences obj)\<rparr>)))"

section \<open>The controller\<close>

definition certificateFinalizer :: string where
  "certificateFinalizer = ''cert.example.com/finalizer''"

definition typeAvailableCert :: string where
  "typeAvailableCert = ''Available''"

definition typeReadyCert :: string where
  "typeReadyCert = ''Ready''"

record Result =
  Requeue :: bool
  RequeueAfter :: duration

subsection \<open>Renewal policy\<close>

definition needsRenewal :: "world \<Rightarrow> Certificate \<Rightarrow> bool \<times> world" where
  "needsRenewal w cert =
     (case RenewalTime (Status cert) of
        None \<Rightarrow> (True, w)
      | Some renewalTime \<Rightarrow>
          (case time_Now w of (now, w') \<Rightarrow> (time_After now renewalTime, w')))"

definition calculateRenewalTime :: "Certificate \<Rightarrow> time \<Rightarrow> time option" where
  "calculateRenewalTime cert notAfter =
     (let renewBefore =
            (if RenewBefore (Spec cert) \<noteq> [] then
               (case ParseDuration (RenewBefore (Spec cert)) of
                  Inr duration \<Rightarrow> duration
                | Inl err \<Rightarrow> 30 * 24 * Hour)
             else 30 * 24 * Hour);
          renewalTime = time_Add notAfter (duration_neg renewBefore)
      in Some renewalTime)"

definition getRequeueTime :: "world \<Rightarrow> Certificate \<Rightarrow> duration \<times> world" where
  "getRequeueTime w cert =
     (case RenewalTime (Status cert) of
        None \<Rightarrow> (Minute, w)
      | Some renewalTime \<Rightarrow>
          (case time_Now w of
             (now, w') \<Rightarrow>
               (let timeUntilRenewal = time_Sub renewalTime now
                in (if timeUntilRenewal < 0 then Minute
                    else if timeUntilRenewal < Hour then duration_quot timeUntilRenewal 2
                    else duration_sub timeUntilRenewal Hour, w'))))"

subsection \<open>Certificate generation\<close>

definition hexdigit :: "nat \<Rightarrow> char" where
  "hexdigit n = ''0123456789abcdef'' ! n"

fun Sprintf_x :: "nat \<Rightarrow> string" where
  "Sprintf_x n = (if n < 16 then [hexdigit n] else Sprintf_x (n div 16) @ [hexdigit (n mod 16)])"

declare Sprintf_x.simps [simp del]

definition generateCertificate ::
  "world \<Rightarrow> Certificate \<Rightarrow> (error + string \<times> string \<times> time \<times> time \<times> string) \<times> world" where
  "generateCertificate w cert =
     (case rsa_GenerateKey w of
        Inl m \<Rightarrow> (Inl (Errorf ''failed to generate private key'' (ErrorString m)), w)
      | Inr privateKey \<Rightarrow>
          (case (if Duration (Spec cert) \<noteq> [] then ParseDuration (Duration (Spec cert))
                 else Inr (90 * 24 * Hour)) of
             Inl err \<Rightarrow> (Inl (Errorf ''invalid duration'' err), w)
           | Inr duration \<Rightarrow>
               (case time_Now w of
                  (notBefore, w1) \<Rightarrow>
                    (let notAfter = time_Add notBefore duration in
                     case rand_Int w1 of
                       Inl m \<Rightarrow>
                         (Inl (Errorf ''failed to generate serial number'' (ErrorString m)), w1)
                     | Inr serialNumber \<Rightarrow>
                         (let ipAddresses = List.map_filter (net_ParseIP w1) (IPAddresses (Spec cert));
                              template =
                                \<lparr>x509_SerialNumber = serialNumber,
                                 x509_CommonName = CommonName (Spec cert),
                                 x509_Organization = [''Certificate Operator''],
                                 x509_DNSNames = DNSNames (Spec cert),
                                 x509_IPAddresses = ipAddresses,
                                 x509_NotBefore = notBefore,
                                 x509_NotAfter = notAfter,
                                 x509_KeyUsage = KeyUsageKeyEncipherment + KeyUsageDigitalSignature,
                                 x509_ExtKeyUsage = [ExtKeyUsageServerAuth, ExtKeyUsageClientAuth],
                                 x509_BasicConstraintsValid = True\<rparr>
                          in case x509_CreateCertificate w1 template privateKey of
                               Inl m \<Rightarrow>
                                 (Inl (Errorf ''failed to create certificate'' (ErrorString m)), w1)
                             | Inr certDER \<Rightarrow>
                                 (Inr (pem_EncodeToMemory w1 ''CERTIFICATE'' certDER,
                                       pem_EncodeToMemory w1 ''RSA PRIVATE KEY'' privateKey,
                                       notBefore, notAfter, Sprintf_x serialNumber), w1))))))"

subsection \<open>Secret synchronisation\<close>

definition createOrUpdateSecret ::
  "world \<Rightarrow> Certificate \<Rightarrow> string \<Rightarrow> string \<Rightarrow> error option \<times> world" where
  "createOrUpdateSecret w cert certPEM keyPEM =
     (let secret =
            \<lparr>Name = SecretName (Spec cert), Namespace = Namespace cert, UID = [],
             Labels = Some [(''app.kubernetes.io/managed-by'', ''certificate-operator''),
                            (''cert.example.com/certificate'', Name cert)],
             Annotations = None, Finalizers = [], DeletionTimestamp = None,
             OwnerReferences = [],
             Secret_Type = ''kubernetes.io/tls'',
             Data = [(''tls.crt'', certPEM), (''tls.key'', keyPEM)]\<rparr>
      in case SetControllerReference w cert secret of
           Inl err \<Rightarrow> (Some (Errorf ''failed to set controller reference'' err), w)
         | Inr secret \<Rightarrow>
             (case client_Get_Secret w (Namespace secret, Name secret) of
                (Inl err, w1) \<Rightarrow>
                  if IsNotFound err then client_Create_Secret w1 secret else (Some err, w1)
              | (Inr existingSecret, w1) \<Rightarrow>
                  client_Update_Secret w1
                    (existingSecret\<lparr>Data := Data secret, Labels := Labels secret\<rparr>)))"

subsection \<open>Restarting the deployments that use the secret\<close>

fun volumes_use_secret :: "Volume list \<Rightarrow> string \<Rightarrow> bool" where
  "volumes_use_secret [] secretName = False"
| "volumes_use_secret (volume # rest) secretName =
     (if Volume_Secret volume \<noteq> None \<and> the (Volume_Secret volume) = secretName then True
      else volumes_use_secret rest secretName)"

fun envFrom_uses_secret :: "EnvFromSource list \<Rightarrow> string \<Rightarrow> bool" where
  "envFrom_uses_secret [] secretName = False"
| "envFrom_uses_secret (envFrom # rest) secretName =
     (if SecretRef envFrom \<noteq> None \<and> the (SecretRef envFrom) = secretName then True
      else envFrom_uses_secret rest secretName)"

fun env_uses_secret :: "EnvVar list \<Rightarrow> string \<Rightarrow> bool" where
  "env_uses_secret [] secretName = False"
| "env_uses_secret (env # rest) secretName =
     (if ValueFrom env \<noteq> None \<and> SecretKeyRef (the (ValueFrom env)) \<noteq> None
         \<and> SecretKeyRef_Name (the (SecretKeyRef (the (ValueFrom env)))) = secretName
      then True
      else env_uses_secret rest secretName)"

fun containers_use_secret :: "Container list \<Rightarrow> string \<Rightarrow> bool" where
  "containers_use_secret [] secretName = False"
| "containers_use_secret (container # rest) secretName =
     (if envFrom_uses_secret (EnvFrom container) secretName then True
      else if env_uses_secret (Env container) secretName then True
      else containers_use_secret rest secretName)"

definition deploymentUsesSecret :: "Deployment \<Rightarrow> string \<Rightarrow> bool" where
  "deploymentUsesSecret deploy secretName =
     (if volumes_use_secret (Volumes (Template deploy)) secretName then True
      else containers_use_secret (Containers (Template deploy)) secretName)"

definition restartedAt :: string where
  "restartedAt = ''cert.example.com/restartedAt''"

definition set_restartedAt :: "Deployment \<Rightarrow> string \<Rightarrow> Deployment" where
  "set_restartedAt deploy stamp =
     deploy\<lparr>Template := (Template deploy)
       \<lparr>Annotations :=
          Some (AList.update restartedAt stamp
                  (case Annotations (Template deploy) of None \<Rightarrow> [] | Some a \<Rightarrow> a))\<rparr>\<rparr>"

text \<open>
  The loop over the listed deployments; \<open>restartedCount\<close> is the number the function
  logs when it is done.
\<close>

fun restart_loop :: "world \<Rightarrow> string \<Rightarrow> Deployment list \<Rightarrow> nat \<Rightarrow> nat \<times> world" where
  "restart_loop w secretName [] restartedCount = (restartedCount, w)"
| "restart_loop w secretName (deploy # rest) restartedCount =
     (if deploymentUsesSecret deploy secretName then
        (case time_Now w of
           (now, w1) \<Rightarrow>
             (case client_Update_Deployment w1 (set_restartedAt deploy (Format_RFC3339 w1 now)) of
                (Some err, w2) \<Rightarrow> restart_loop w2 secretName rest restartedCount
              | (None, w2) \<Rightarrow> restart_loop w2 secretName rest (Suc restartedCount)))
      else restart_loop w secretName rest restartedCount)"

definition restartDeployments :: "world \<Rightarrow> Certificate \<Rightarrow> (error + nat) \<times> world" where
  "restartDeployments w cert =
     (case client_List_Deployments w (Namespace cert) of
        (Inl err, w1) \<Rightarrow> (Inl (Errorf ''failed to list deployments'' err), w1)
      | (Inr items, w1) \<Rightarrow>
          (case restart_loop w1 (SecretName (Spec cert)) items 0 of
             (restartedCount, w2) \<Rightarrow> (Inr restartedCount, w2)))"

subsection \<open>Reconcile\<close>

definition set_condition :: "Certificate \<Rightarrow> Condition \<Rightarrow> Certificate" where
  "set_condition cert c =
     cert\<lparr>Status := (Status cert)\<lparr>Conditions := SetStatusCondition (Conditions (Status cert)) c\<rparr>\<rparr>"

definition no_requeue :: Result where
  "no_requeue = \<lparr>Requeue = False, RequeueAfter = 0\<rparr>"

text \<open>The end of \<open>Reconcile\<close>: requeue before the renewal time.\<close>

definition Reconcile_requeue :: "world \<Rightarrow> Certificate \<Rightarrow> (error + Result) \<times> world" where
  "Reconcile_requeue w certificate =
     (case getRequeueTime w certificate of
        (requeueAfter, w1) \<Rightarrow> (Inr \<lparr>Requeue = False, RequeueAfter = requeueAfter\<rparr>, w1))"

text \<open>
  The body of \<open>if r.needsRenewal(certificate)\<close>: either it returns an error, or it falls
  through to the requeue with the certificate it has updated.
\<close>

definition Reconcile_issue :: "world \<Rightarrow> Certificate \<Rightarrow> (error + Certificate) \<times> world" where
  "Reconcile_issue w certificate =
     (case generateCertificate w certificate of
        (Inl err, w1) \<Rightarrow>
          (case time_Now w1 of
             (now, w2) \<Rightarrow>
               (case client_Status_Update w2
                       (set_condition certificate
                          \<lparr>Condition_Type = typeReadyCert, Condition_Status = ConditionFalse,
                           Reason = ''GenerationFailed'',
                           Message = ''Failed to generate certificate: '' @ Error err,
                           LastTransitionTime = now\<rparr>) of
                  (ignored, w3) \<Rightarrow> (Inl err, w3)))
      | (Inr (certPEM, keyPEM, notBefore, notAfter, serialNumber), w1) \<Rightarrow>
          (case createOrUpdateSecret w1 certificate certPEM keyPEM of
             (Some err, w2) \<Rightarrow>
               (case time_Now w2 of
                  (now, w3) \<Rightarrow>
                    (case client_Status_Update w3
                            (set_condition certificate
                               \<lparr>Condition_Type = typeReadyCert, Condition_Status = ConditionFalse,
                                Reason = ''SecretUpdateFailed'',
                                Message = ''Failed to update secret: '' @ Error err,
                                LastTransitionTime = now\<rparr>) of
                       (ignored, w4) \<Rightarrow> (Inl err, w4)))
           | (None, w2) \<Rightarrow>
               (case time_Now w2 of
                  (lastRenewal, w3) \<Rightarrow>
                    (case time_Now w3 of
                       (readyAt, w4) \<Rightarrow>
                         (case time_Now w4 of
                            (availableAt, w5) \<Rightarrow>
                              (let issued = certificate\<lparr>Status := (Status certificate)
                                     \<lparr>NotBefore := Some notBefore,
                                      NotAfter := Some notAfter,
                                      RenewalTime := calculateRenewalTime certificate notAfter,
                                      SerialNumber := serialNumber,
                                      LastRenewalTime := Some lastRenewal\<rparr>\<rparr>;
                                   ready = set_condition issued
                                     \<lparr>Condition_Type = typeReadyCert,
                                      Condition_Status = ConditionTrue,
                                      Reason = ''CertificateIssued'',
                                      Message = ''Certificate has been issued successfully'',
                                      LastTransitionTime = readyAt\<rparr>;
                                   available = set_condition ready
                                     \<lparr>Condition_Type = typeAvailableCert,
                                      Condition_Status = ConditionTrue,
                                      Reason = ''Reconciling'',
                                      Message = ''Certificate for ('' @ Name certificate
                                                  @ '') issued successfully'',
                                      LastTransitionTime = availableAt\<rparr>
                               in case client_Status_Update w5 available of
                                    (Some err, w6) \<Rightarrow> (Inl err, w6)
                                  | (None, w6) \<Rightarrow>
                                      if RestartDeployments (Spec available) then
                                        (case restartDeployments w6 available of
                                           (logged, w7) \<Rightarrow> (Inr available, w7))
                                      else (Inr available, w6)))))))"

definition Reconcile_renewal :: "world \<Rightarrow> Certificate \<Rightarrow> (error + Result) \<times> world" where
  "Reconcile_renewal w certificate =
     (case needsRenewal w certificate of
        (True, w1) \<Rightarrow>
          (case Reconcile_issue w1 certificate of
             (Inl err, w2) \<Rightarrow> (Inl err, w2)
           | (Inr issued, w2) \<Rightarrow> Reconcile_requeue w2 issued)
      | (False, w1) \<Rightarrow> Reconcile_requeue w1 certificate)"

text \<open>The check of the deletion timestamp, and what follows it.\<close>

definition Reconcile_deletion :: "world \<Rightarrow> Certificate \<Rightarrow> (error + Result) \<times> world" where
  "Reconcile_deletion w certificate =
     (if DeletionTimestamp certificate \<noteq> None then
        (if ContainsFinalizer certificate certificateFinalizer then
           (case RemoveFinalizer certificate certificateFinalizer of
              (removed, ok) \<Rightarrow>
                if \<not> ok then (Inr \<lparr>Requeue = True, RequeueAfter = 0\<rparr>, w)
                else
                  (case client_Update_Certificate w removed of
                     (Some err, w1) \<Rightarrow> (Inl err, w1)
                   | (None, w1) \<Rightarrow> (Inr no_requeue, w1)))
         else (Inr no_requeue, w))
      else Reconcile_renewal w certificate)"

text \<open>The block that adds the finalizer, and what follows it.\<close>

definition Reconcile_finalizer :: "world \<Rightarrow> Certificate \<Rightarrow> (error + Result) \<times> world" where
  "Reconcile_finalizer w certificate =
     (if \<not> ContainsFinalizer certificate certificateFinalizer then
        (case AddFinalizer certificate certificateFinalizer of
           (added, ok) \<Rightarrow>
             if \<not> ok then (Inr \<lparr>Requeue = True, RequeueAfter = 0\<rparr>, w)
             else
               (case client_Update_Certificate w added of
                  (Some err, w1) \<Rightarrow> (Inl err, w1)
                | (None, w1) \<Rightarrow> Reconcile_deletion w1 added))
      else Reconcile_deletion w certificate)"

definition Reconcile :: "world \<Rightarrow> NamespacedName \<Rightarrow> (error + Result) \<times> world" where
  "Reconcile w req =
     (case client_Get_Certificate w req of
        (Inl err, w1) \<Rightarrow>
          if IsNotFound err then (Inr no_requeue, w1) else (Inl err, w1)
      | (Inr certificate, w1) \<Rightarrow> Reconcile_finalizer w1 certificate)"

section \<open>Example inputs\<close>

text \<open>
  A world whose clock stands at one instant, whose primitives succeed and whose server
  fails no call; and a certificate in namespace \<open>default\<close>.
\<close>

definition world_at :: "time \<Rightarrow> world" where
  "world_at now =
     \<lparr>clock = (\<lambda>n. now), ticks = 0, api_fail = (\<lambda>n. None), trace = [],
      certs = Map.empty, secrets = Map.empty, deployments = [],
      rsa_GenerateKey = Inr ''key'', rand_Int = Inr 255,
      x509_CreateCertificate = (\<lambda>template key. Inr ''der''),
      pem_EncodeToMemory = (\<lambda>type bytes. type @ bytes),
      net_ParseIP = (\<lambda>s. Some s),
      Format_RFC3339 = (\<lambda>t. ''now''),
      scheme_has_Certificate = True\<rparr>"

definition new_status :: CertificateStatus where
  "new_status =
     \<lparr>Conditions = [], NotBefore = None, NotAfter = None, RenewalTime = None,
      SerialNumber = [], LastRenewalTime = None\<rparr>"

definition myapp_cert :: Certificate where
  "myapp_cert =
     \<lparr>Name = ''myapp'', Namespace = ''default'', UID = ''uid-1'',
      Labels = None, Annotations = None, Finalizers = [], DeletionTimestamp = None,
      OwnerReferences = [],
      Spec = \<lparr>CommonName = ''myapp.example.com'', DNSNames = [], IPAddresses = [],
               SecretName = ''myapp-tls'', Duration = ''2160h'', RenewBefore = ''720h'',
               IssuerRef = \<lparr>IssuerRef_Name = ''selfsigned'', IssuerRef_Kind = ''SelfSigned''\<rparr>,
               RestartDeployments = False\<rparr>,
      Status = new_status\<rparr>"

definition renewing_at :: "time \<Rightarrow> Certificate" where
  "renewing_at t = myapp_cert\<lparr>Status := new_status\<lparr>RenewalTime := Some t\<rparr>\<rparr>"

definition with_Duration :: "string \<Rightarrow> Certificate" where
  "with_Duration s = myapp_cert\<lparr>Spec := (Spec myapp_cert)\<lparr>Duration := s\<rparr>\<rparr>"

definition with_RenewBefore :: "string \<Rightarrow> Certificate" where
  "with_RenewBefore s = myapp_cert\<lparr>Spec := (Spec myapp_cert)\<lparr>RenewBefore := s\<rparr>\<rparr>"

section \<open>The durations the specification speaks of\<close>

text \<open>
  In the words of the specification: the validity is the duration parsed from the
  duration string, 2160h when the string is unset; the renewal lead time is the parsed
  renew-before string, 720h when it is empty or does not parse.
\<close>

definition effective_duration :: "string \<Rightarrow> error + duration" where
  "effective_duration s = (if s = [] then Inr (2160 * Hour) else ParseDuration s)"

definition effective_renewBefore :: "string \<Rightarrow> duration" where
  "effective_renewBefore s =
     (case ParseDuration s of Inr d \<Rightarrow> d | Inl err \<Rightarrow> 720 * Hour)"

(*CLAIMS*)
section \<open>Auxiliary facts\<close>

lemmas duration_defs =
  Nanosecond_def Microsecond_def Millisecond_def Second_def Minute_def Hour_def
  minDuration_def maxDuration_def

lemma int64_id: "- (2 ^ 63) \<le> x \<Longrightarrow> x < 2 ^ 63 \<Longrightarrow> int64 x = x"
  by (simp add: int64_def)

lemmas pd_defs =
  ParseDuration_def parse_component_def leadingInt_def leadingFraction_def
  isDigit_def unitMap_def unitChar_def Let_def invalid_duration_def quote_def

lemmas example_defs =
  world_at_def myapp_cert_def new_status_def with_Duration_def with_RenewBefore_def
  renewing_at_def

section \<open>Renewal policy\<close>

text \<open>
  C1 (as amended). \<open>needsRenewal\<close> is true when no renewal time is recorded; otherwise it
  is true exactly when the current time is strictly after the recorded renewal time:
  it is false before the renewal instant and still false at that instant.
\<close>

theorem needsRenewal_strictly_after:
  "fst (needsRenewal w cert) =
     (case RenewalTime (Status cert) of
        None \<Rightarrow> True
      | Some renewalTime \<Rightarrow> renewalTime < fst (time_Now w))"
  by (simp add: needsRenewal_def time_After_def split: option.split prod.split)

theorem needsRenewal_strictly_after_witness:
  "fst (needsRenewal (world_at 1001) (renewing_at 1000)) = True
   \<and> fst (needsRenewal (world_at 999) (renewing_at 1000)) = False
   \<and> fst (needsRenewal (world_at 999) myapp_cert) = True"
  using needsRenewal_strictly_after [of "world_at 1001" "renewing_at 1000"]
    needsRenewal_strictly_after [of "world_at 999" "renewing_at 1000"]
    needsRenewal_strictly_after [of "world_at 999" "myapp_cert"]
  by (simp add: time_Now_def world_at_def renewing_at_def myapp_cert_def new_status_def)

text \<open>
  C1 as stated fails: with the clock at the recorded renewal time itself,
  \<open>time.Now().After(renewalTime)\<close> is false.
\<close>

theorem needsRenewal_at_renewal_instant:
  "RenewalTime (Status (renewing_at 1000)) = Some 1000
   \<and> fst (time_Now (world_at 1000)) = 1000
   \<and> fst (needsRenewal (world_at 1000) (renewing_at 1000)) = False"
  by (simp add: needsRenewal_def time_After_def time_Now_def world_at_def renewing_at_def)

text \<open>
  C2 (as amended). \<open>getRequeueTime\<close> is the piecewise function of the claim, of the time
  that remains until the renewal time as a \<open>time.Duration\<close> holds it: the difference
  \<open>renewalTime - now\<close>, saturated at the smallest and the largest duration. One minute
  when no renewal time is recorded or when the remaining time is negative, half of the
  remaining time below one hour, and the remaining time less one hour otherwise.
\<close>

theorem getRequeueTime_piecewise:
  "fst (getRequeueTime w cert) =
     (case RenewalTime (Status cert) of
        None \<Rightarrow> Minute
      | Some renewalTime \<Rightarrow>
          (let remaining = max minDuration (min maxDuration (renewalTime - fst (time_Now w)))
           in if remaining < 0 then Minute
              else if remaining < Hour then remaining div 2
              else remaining - Hour))"
proof (cases "RenewalTime (Status cert)")
  case None
  then show ?thesis by (simp add: getRequeueTime_def)
next
  case (Some t)
  define now where "now = fst (time_Now w)"
  define r where "r = time_Sub t now"
  have r: "r = max minDuration (min maxDuration (t - now))"
    by (simp add: r_def time_Sub_def duration_defs)
  have rng: "minDuration \<le> r" "r \<le> maxDuration"
    by (simp_all add: r duration_defs)
  have q: "0 \<le> r \<Longrightarrow> duration_quot r 2 = r div 2"
    by (cases "r = 0") (simp_all add: duration_quot_def)
  have s: "Hour \<le> r \<Longrightarrow> duration_sub r Hour = r - Hour"
    using rng unfolding duration_sub_def
    by (intro int64_id) (simp_all add: duration_defs)
  have "fst (getRequeueTime w cert) =
          (if r < 0 then Minute else if r < Hour then duration_quot r 2 else duration_sub r Hour)"
    using Some by (simp add: getRequeueTime_def r_def now_def Let_def split: prod.split)
  also have "\<dots> = (if r < 0 then Minute else if r < Hour then r div 2 else r - Hour)"
    using q s by simp
  finally show ?thesis using Some by (simp add: r now_def Let_def)
qed

text \<open>The examples of the claim: thirty minutes ahead, five hours ahead, overdue, unset.\<close>

theorem getRequeueTime_piecewise_witness:
  "fst (getRequeueTime (world_at 1000) (renewing_at (1000 + 30 * Minute))) = 15 * Minute
   \<and> fst (getRequeueTime (world_at 1000) (renewing_at (1000 + 5 * Hour))) = 4 * Hour
   \<and> fst (getRequeueTime (world_at 1000) (renewing_at (1000 - Hour))) = Minute
   \<and> fst (getRequeueTime (world_at 1000) myapp_cert) = Minute"
  using getRequeueTime_piecewise [of "world_at 1000" "renewing_at (1000 + 30 * Minute)"]
    getRequeueTime_piecewise [of "world_at 1000" "renewing_at (1000 + 5 * Hour)"]
    getRequeueTime_piecewise [of "world_at 1000" "renewing_at (1000 - Hour)"]
    getRequeueTime_piecewise [of "world_at 1000" "myapp_cert"]
  by (simp add: time_Now_def world_at_def renewing_at_def myapp_cert_def new_status_def
      duration_defs)

text \<open>
  C2 as stated fails where the exact difference is no duration: a renewal time
  \<open>2^63 ns + 1 h\<close> ahead (some 292 years) is neither overdue nor within the hour, and the
  delay is not the difference less one hour, since \<open>time.Until\<close> has stopped at the
  largest duration.
\<close>

theorem getRequeueTime_saturates:
  "RenewalTime (Status (renewing_at 9223375636854775808)) = Some 9223375636854775808
   \<and> fst (time_Now (world_at 0)) = 0
   \<and> \<not> (9223375636854775808 - 0 < (0::int))
   \<and> \<not> (9223375636854775808 - 0 < Hour)
   \<and> fst (getRequeueTime (world_at 0) (renewing_at 9223375636854775808))
       \<noteq> (9223375636854775808 - 0) - Hour"
  by (simp add: getRequeueTime_def time_Sub_def duration_sub_def duration_quot_def int64_def
      time_Now_def world_at_def renewing_at_def duration_defs)

section \<open>Certificate generation\<close>

lemma generateCertificate_Inr:
  assumes "fst (generateCertificate w cert) = Inr (certPEM, keyPEM, notBefore, notAfter, serial)"
  shows "\<exists>d. effective_duration (Duration (Spec cert)) = Inr d
           \<and> notBefore = fst (time_Now w) \<and> notAfter = notBefore + d"
  using assms
  by (auto simp: generateCertificate_def effective_duration_def time_Add_def Let_def
        duration_defs split: sum.splits prod.splits if_splits)

text \<open>
  C4 (as amended). Whenever the generator succeeds, \<open>notAfter - notBefore\<close> is the
  duration parsed from the duration string (2160h when the string is empty), and
  \<open>notBefore < notAfter\<close> holds exactly when that duration is positive. A non-empty
  duration string that does not parse makes the generation fail, with the
  invalid-duration error once the key has been generated, and never with the default.
\<close>

theorem generateCertificate_validity:
  "(fst (generateCertificate w cert) = Inr (certPEM, keyPEM, notBefore, notAfter, serial) \<longrightarrow>
      (\<exists>d. effective_duration (Duration (Spec cert)) = Inr d
            \<and> notAfter - notBefore = d
            \<and> (notBefore < notAfter \<longleftrightarrow> 0 < d)))
   \<and> (Duration (Spec cert) \<noteq> [] \<and> ParseDuration (Duration (Spec cert)) = Inl err \<longrightarrow>
        isl (fst (generateCertificate w cert))
        \<and> (\<not> isl (rsa_GenerateKey w) \<longrightarrow>
             fst (generateCertificate w cert) = Inl (Errorf ''invalid duration'' err)))"
proof (intro conjI impI)
  assume "fst (generateCertificate w cert) = Inr (certPEM, keyPEM, notBefore, notAfter, serial)"
  from generateCertificate_Inr [OF this]
  show "\<exists>d. effective_duration (Duration (Spec cert)) = Inr d
            \<and> notAfter - notBefore = d \<and> (notBefore < notAfter \<longleftrightarrow> 0 < d)"
    by auto
next
  assume a: "Duration (Spec cert) \<noteq> [] \<and> ParseDuration (Duration (Spec cert)) = Inl err"
  then show "isl (fst (generateCertificate w cert))"
    by (simp add: generateCertificate_def split: sum.splits)
  assume "\<not> isl (rsa_GenerateKey w)"
  then obtain key where "rsa_GenerateKey w = Inr key"
    by (cases "rsa_GenerateKey w") auto
  with a show "fst (generateCertificate w cert) = Inl (Errorf ''invalid duration'' err)"
    by (simp add: generateCertificate_def)
qed

theorem generateCertificate_validity_witness:
  "fst (generateCertificate (world_at 1000) myapp_cert) =
     Inr (''CERTIFICATEder'', ''RSA PRIVATE KEYkey'', 1000, 1000 + 2160 * Hour, ''ff'')
   \<and> effective_duration (Duration (Spec myapp_cert)) = Inr (2160 * Hour)
   \<and> (1000 + 2160 * Hour) - 1000 = 2160 * Hour
   \<and> (1000::int) < 1000 + 2160 * Hour
   \<and> fst (generateCertificate (world_at 1000) (with_Duration ''soon'')) =
       Inl (Errorf ''invalid duration''
             (ErrorString (''time: invalid duration '' @ quote ''soon'')))"
  using generateCertificate_validity [of "world_at 1000" myapp_cert
      "''CERTIFICATEder''" "''RSA PRIVATE KEYkey''" 1000 "1000 + 2160 * Hour" "''ff''"]
    generateCertificate_validity [of "world_at 1000" "with_Duration ''soon''"
      _ _ _ _ _ "ErrorString (''time: invalid duration '' @ quote ''soon'')"]
  by (simp add: generateCertificate_def example_defs pd_defs time_Now_def time_Add_def
      duration_defs Sprintf_x.simps hexdigit_def List.map_filter_def effective_duration_def)

text \<open>
  C4 as stated fails: the duration string \<open>-1h\<close> parses, the generation succeeds, and
  the certificate expires an hour before it starts.
\<close>

theorem generateCertificate_expired_window:
  "ParseDuration (Duration (Spec (with_Duration ''-1h''))) = Inr (- Hour)
   \<and> fst (generateCertificate (world_at 1000) (with_Duration ''-1h'')) =
       Inr (''CERTIFICATEder'', ''RSA PRIVATE KEYkey'', 1000, 1000 - Hour, ''ff'')
   \<and> \<not> (1000 < 1000 - Hour)"
  by (simp add: generateCertificate_def example_defs pd_defs time_Now_def time_Add_def
      duration_defs Sprintf_x.simps hexdigit_def List.map_filter_def)

text \<open>
  C10. The generator does not check the sign of the duration: when the duration string
  parses to zero or less and the cryptographic primitives succeed (the key, the serial
  number, the signature), the generation succeeds and returns \<open>notAfter \<le> notBefore\<close>.
\<close>

theorem generateCertificate_nonpositive_duration:
  assumes "ParseDuration (Duration (Spec cert)) = Inr d" and "d \<le> 0"
    and "rsa_GenerateKey w = Inr key" and "rand_Int w = Inr serial"
    and "\<forall>template. \<not> isl (x509_CreateCertificate w template key)"
  shows "\<exists>certPEM keyPEM notBefore notAfter serialNumber.
           fst (generateCertificate w cert)
             = Inr (certPEM, keyPEM, notBefore, notAfter, serialNumber)
           \<and> notAfter = notBefore + d \<and> notAfter \<le> notBefore"
proof -
  have ne: "Duration (Spec cert) \<noteq> []"
    using assms(1) by (auto simp: ParseDuration_def invalid_duration_def)
  obtain now w1 where tn: "time_Now w = (now, w1)" by (cases "time_Now w")
  then have w1: "rand_Int w1 = rand_Int w" "x509_CreateCertificate w1 = x509_CreateCertificate w"
    by (auto simp: time_Now_def)
  have ok: "x509_CreateCertificate w template key \<noteq> Inl m" for template m
    using spec [OF assms(5), of template] by auto
  show ?thesis
    using assms(1-4) ne tn w1 ok
    by (auto simp: generateCertificate_def time_Add_def Let_def split: sum.splits)
qed

theorem generateCertificate_nonpositive_duration_witness:
  "ParseDuration (Duration (Spec (with_Duration ''-24h''))) = Inr (- (24 * Hour))
   \<and> - (24 * Hour) \<le> 0
   \<and> (\<exists>certPEM keyPEM notBefore notAfter serialNumber.
         fst (generateCertificate (world_at 1000) (with_Duration ''-24h''))
           = Inr (certPEM, keyPEM, notBefore, notAfter, serialNumber)
         \<and> notAfter = notBefore + - (24 * Hour) \<and> notAfter \<le> notBefore)"
proof -
  have p: "ParseDuration (Duration (Spec (with_Duration ''-24h''))) = Inr (- (24 * Hour))"
    by (simp add: example_defs pd_defs duration_defs)
  have n: "- (24 * Hour) \<le> 0" by (simp add: duration_defs)
  have k: "rsa_GenerateKey (world_at 1000) = Inr ''key''"
    and r: "rand_Int (world_at 1000) = Inr 255"
    and c: "\<forall>template. \<not> isl (x509_CreateCertificate (world_at 1000) template ''key'')"
    by (simp_all add: world_at_def)
  from generateCertificate_nonpositive_duration [OF p n k r c] p n show ?thesis by blast
qed

end
